theory Spec2Isabelle
  imports Complex_Main
begin

section \<open>Cells, frames and rows\<close>

text \<open>
  A cell of a sheet as \<^verbatim>\<open>pd.read_excel\<close> delivers it. \<open>Null\<close> stands for the missing
  values of pandas (NaN, None, NaT): the values for which \<^verbatim>\<open>isna\<close> holds. \<open>Str\<close> is a text
  cell, \<open>Num\<close> a numeric cell, \<open>Timestamp\<close> a date cell (a point in time, as an integer).
  Any other non-missing scalar behaves like \<open>Num\<close> in everything below: it is not
  missing and it is not equal to a string.

  A \<open>string\<close> is a list of code points below 256 (Latin-1), so that the accented
  letters of the source's messages are single characters; code points above 255 are not
  represented.
\<close>

datatype cell = Null | Str string | Num int | Timestamp int

text \<open>\<^verbatim>\<open>notna\<close> of pandas.\<close>

definition notna :: "cell \<Rightarrow> bool" where
  "notna c = (c \<noteq> Null)"

text \<open>
  A DataFrame as \<^verbatim>\<open>read_excel\<close> returns it: the length of its index and its columns
  from left to right, each a label with the values of the column. In pandas every
  column has as many values as the index (\<open>wf_dataframe\<close>).
\<close>

record dataframe =
  n_rows :: nat
  cols :: "(string \<times> cell list) list"

definition wf_dataframe :: "dataframe \<Rightarrow> bool" where
  "wf_dataframe df = list_all (\<lambda>(label, vs). length vs = n_rows df) (cols df)"

text \<open>
  A row of a frame after \<^verbatim>\<open>df.columns = column_names\<close>: one field per canonical
  column, in the order of the list \<^verbatim>\<open>column_names\<close> of \<^verbatim>\<open>load_data\<close>.
\<close>

record child_row =
  Nome :: cell
  DN :: cell
  Data_1_Puericultura :: cell
  Dias_1_Puericultura :: cell
  A :: cell
  Qtd_Puericultura :: cell
  B :: cell
  Qtd_Peso_Altura :: cell
  C :: cell
  Data_1_Visita_ACS :: cell
  Dias_1_Visita_ACS :: cell
  Data_2_Visita_ACS :: cell
  Dias_2_Visita_ACS :: cell
  D :: cell
  E :: cell

text \<open>The row once \<^verbatim>\<open>df['Unidade'] = unit_name.strip()\<close> has added its column.\<close>

record unit_row = child_row +
  Unidade :: cell

definition column_names :: "string list" where
  "column_names =
     [''Nome'', ''DN'', ''Data_1_Puericultura'', ''Dias_1_Puericultura'', ''A'',
      ''Qtd_Puericultura'', ''B'', ''Qtd_Peso_Altura'', ''C'',
      ''Data_1_Visita_ACS'', ''Dias_1_Visita_ACS'', ''Data_2_Visita_ACS'',
      ''Dias_2_Visita_ACS'', ''D'', ''E'']"

text \<open>
  The column behind a label of \<open>column_names\<close>, \<open>None\<close> where pandas raises KeyError.
  Columns added later (\<^verbatim>\<open>'Unidade'\<close>) live in the extension part of the record and are
  read by their selectors.
\<close>

definition selector :: "string \<Rightarrow> ('a child_row_scheme \<Rightarrow> cell) option" where
  "selector =
     map_of
       [(''Nome'', Nome), (''DN'', DN),
        (''Data_1_Puericultura'', Data_1_Puericultura),
        (''Dias_1_Puericultura'', Dias_1_Puericultura), (''A'', A),
        (''Qtd_Puericultura'', Qtd_Puericultura), (''B'', B),
        (''Qtd_Peso_Altura'', Qtd_Peso_Altura), (''C'', C),
        (''Data_1_Visita_ACS'', Data_1_Visita_ACS),
        (''Dias_1_Visita_ACS'', Dias_1_Visita_ACS),
        (''Data_2_Visita_ACS'', Data_2_Visita_ACS),
        (''Dias_2_Visita_ACS'', Dias_2_Visita_ACS), (''D'', D), (''E'', E)]"

text \<open>\<^verbatim>\<open>row[label]\<close> on a row and \<^verbatim>\<open>df[label]\<close> on a frame of rows.\<close>

definition getitem :: "'a child_row_scheme \<Rightarrow> string \<Rightarrow> cell option" where
  "getitem row label = map_option (\<lambda>sel. sel row) (selector label)"

datatype py_error = KeyError string | ValueError string | Exception string

definition getitem_column :: "'a child_row_scheme list \<Rightarrow> string \<Rightarrow> py_error + cell list" where
  "getitem_column df label =
     (case selector label of
        None \<Rightarrow> Inl (KeyError label)
      | Some sel \<Rightarrow> Inr (map sel df))"

section \<open>Scorer\<close>

definition indicadores :: "string list" where
  "indicadores = [''A'', ''B'', ''C'', ''D'', ''E'']"

text \<open>
  The loop of \<^verbatim>\<open>calculate_score\<close>, with the running \<^verbatim>\<open>score\<close> as accumulator:
  \<^verbatim>\<open>for indicador in indicadores: if row[indicador] == 'OK': score += 20\<close>.
\<close>

fun score_loop :: "'a child_row_scheme \<Rightarrow> string list \<Rightarrow> int \<Rightarrow> py_error + int" where
  "score_loop row [] score = Inr score"
| "score_loop row (indicador # rest) score =
     (case getitem row indicador of
        None \<Rightarrow> Inl (KeyError indicador)
      | Some v \<Rightarrow> score_loop row rest (if v = Str ''OK'' then score + 20 else score))"

definition calculate_score :: "'a child_row_scheme \<Rightarrow> py_error + int" where
  "calculate_score row = score_loop row indicadores 0"

text \<open>
  The four tiers returned by \<^verbatim>\<open>get_classification\<close>; the first begins with a capital O
  with acute accent (code point 211). The specification calls them Excellent, Good,
  Sufficient and Regular.
\<close>

definition Otimo :: string where
  "Otimo = CHR 0xD3 # ''timo''"

definition Bom :: string where
  "Bom = ''Bom''"

definition Suficiente :: string where
  "Suficiente = ''Suficiente''"

definition Regular :: string where
  "Regular = ''Regular''"

definition get_classification :: "int \<Rightarrow> string" where
  "get_classification score =
     (if 75 < score \<and> score \<le> 100 then Otimo
      else if 50 < score \<and> score \<le> 75 then Bom
      else if 25 < score \<and> score \<le> 50 then Suficiente
      else Regular)"

section \<open>Conformity per practice\<close>

text \<open>
  The numbers of line 203. The counts are integers of numpy; their quotient and its
  product with 100 are doubles (IEEE 754 binary64), each operation rounded to the
  nearest double, ties to the even mantissa. \<open>Finite m k\<close> is the double \<open>m * 2 ^ k\<close>,
  \<open>float_value\<close> its value as a rational; zero has no sign here.
\<close>

datatype float64 = Finite int int | PosInf | NegInf | NaN

definition float_value :: "int \<Rightarrow> int \<Rightarrow> rat" where
  "float_value m k =
     (if 0 \<le> k then of_int (m * 2 ^ nat k) else of_int m / of_int (2 ^ nat (- k)))"

text \<open>The number of binary digits of a positive integer (\<^verbatim>\<open>int.bit_length\<close>).\<close>

function bit_length :: "int \<Rightarrow> nat" where
  "bit_length n = (if n \<le> 0 then 0 else Suc (bit_length (n div 2)))"
  by pat_completeness auto
termination
  by (relation "measure nat") auto

declare bit_length.simps [simp del]

text \<open>For positive \<open>n\<close> and \<open>d\<close>, the exponent \<open>e\<close> with \<open>2 ^ e \<le> n / d < 2 ^ (e + 1)\<close>.\<close>

definition floor_log2 :: "int \<Rightarrow> int \<Rightarrow> int" where
  "floor_log2 n d =
     (let e = int (bit_length n) - int (bit_length d)
      in if d * 2 ^ nat e \<le> n * 2 ^ nat (- e) then e else e - 1)"

text \<open>The integer nearest to \<open>n / d\<close>, the even one of two equally near.\<close>

definition round_half_even :: "int \<Rightarrow> int \<Rightarrow> int" where
  "round_half_even n d =
     (let q = n div d; r = n mod d
      in if 2 * r < d then q else if d < 2 * r then q + 1
         else if even q then q else q + 1)"

text \<open>
  The double nearest to \<open>n / d\<close> (\<open>n \<ge> 0\<close>, \<open>d > 0\<close>), with the given sign: 53 binary
  digits, the unit in the last place never below \<open>2 ^ - 1074\<close>, infinity from
  \<open>2 ^ 1024\<close> on.
\<close>

definition round_nearest :: "bool \<Rightarrow> int \<Rightarrow> int \<Rightarrow> float64" where
  "round_nearest negative n d =
     (if n = 0 then Finite 0 0
      else
        (let k = max (floor_log2 n d - 52) (- 1074);
             m = round_half_even (n * 2 ^ nat (- k)) (d * 2 ^ nat k)
         in if m = 0 then Finite 0 0
            else if 2 ^ 1024 \<le> m * 2 ^ nat k then (if negative then NegInf else PosInf)
            else Finite (if negative then - m else m) k))"

text \<open>The conversion of an integer to a double.\<close>

definition float_of_int :: "int \<Rightarrow> float64" where
  "float_of_int n = round_nearest (n < 0) \<bar>n\<bar> 1"

text \<open>Division of doubles as numpy does it: a warning, no exception, on division by zero.\<close>

fun float_truediv :: "float64 \<Rightarrow> float64 \<Rightarrow> float64" where
  "float_truediv NaN y = NaN"
| "float_truediv x NaN = NaN"
| "float_truediv (Finite m1 k1) (Finite m2 k2) =
     (if m2 = 0 then (if m1 = 0 then NaN else if m1 < 0 then NegInf else PosInf)
      else round_nearest ((m1 < 0) \<noteq> (m2 < 0))
             (\<bar>m1\<bar> * 2 ^ nat (k1 - k2)) (\<bar>m2\<bar> * 2 ^ nat (k2 - k1)))"
| "float_truediv (Finite m1 k1) y = Finite 0 0"
| "float_truediv PosInf (Finite m2 k2) = (if m2 < 0 then NegInf else PosInf)"
| "float_truediv NegInf (Finite m2 k2) = (if m2 < 0 then PosInf else NegInf)"
| "float_truediv x y = NaN"

fun float_mul :: "float64 \<Rightarrow> float64 \<Rightarrow> float64" where
  "float_mul NaN y = NaN"
| "float_mul x NaN = NaN"
| "float_mul (Finite m1 k1) (Finite m2 k2) =
     round_nearest ((m1 < 0) \<noteq> (m2 < 0))
       (\<bar>m1 * m2\<bar> * 2 ^ nat (k1 + k2)) (2 ^ nat (- (k1 + k2)))"
| "float_mul (Finite m1 k1) PosInf =
     (if m1 = 0 then NaN else if m1 < 0 then NegInf else PosInf)"
| "float_mul (Finite m1 k1) NegInf =
     (if m1 = 0 then NaN else if m1 < 0 then PosInf else NegInf)"
| "float_mul PosInf (Finite m2 k2) =
     (if m2 = 0 then NaN else if m2 < 0 then NegInf else PosInf)"
| "float_mul NegInf (Finite m2 k2) =
     (if m2 = 0 then NaN else if m2 < 0 then PosInf else NegInf)"
| "float_mul PosInf PosInf = PosInf"
| "float_mul NegInf NegInf = PosInf"
| "float_mul x y = NegInf"

text \<open>A rate is the double of the division, or the integer \<^verbatim>\<open>0\<close> of the \<^verbatim>\<open>else\<close>.\<close>

datatype py_number = PyInt int | PyFloat float64

text \<open>\<^verbatim>\<open>.sum()\<close> of a boolean Series: the number of its true entries.\<close>

definition bool_sum :: "bool list \<Rightarrow> int" where
  "bool_sum bs = sum_list (map (\<lambda>b. if b then 1 else 0) bs)"

text \<open>
  The body of the loop that fills \<^verbatim>\<open>compliance_data\<close>, for one indicator:
  \<^verbatim>\<open>(ok_count / total_count) * 100 if total_count > 0 else 0\<close>.
\<close>

definition compliance :: "'a child_row_scheme list \<Rightarrow> string \<Rightarrow> py_error + py_number" where
  "compliance df_filtered ind =
     (case getitem_column df_filtered ind of
        Inl e \<Rightarrow> Inl e
      | Inr col \<Rightarrow>
          (let ok_count = bool_sum (map (\<lambda>v. v = Str ''OK'') col);
               total_count = bool_sum (map notna col)
           in Inr (if total_count > 0
                   then PyFloat
                          (float_mul
                             (float_truediv (float_of_int ok_count) (float_of_int total_count))
                             (float_of_int 100))
                   else PyInt 0)))"

text \<open>The label \<^verbatim>\<open>f'Pratica {ind}'\<close> (with a acute, code point 225).\<close>

definition pratica_label :: "string \<Rightarrow> string" where
  "pratica_label ind = ''Pr'' @ [CHR 0xE1] @ ''tica '' @ ind"

fun compliance_loop ::
  "'a child_row_scheme list \<Rightarrow> string list \<Rightarrow> (string \<times> py_number) list \<Rightarrow>
     py_error + (string \<times> py_number) list" where
  "compliance_loop df_filtered [] compliance_data = Inr compliance_data"
| "compliance_loop df_filtered (ind # rest) compliance_data =
     (case compliance df_filtered ind of
        Inl e \<Rightarrow> Inl e
      | Inr c \<Rightarrow>
          compliance_loop df_filtered rest (compliance_data @ [(pratica_label ind, c)]))"

text \<open>
  The rate in the words of the specification, in the arithmetic of the program: the
  number of values that are exactly OK, divided by the number of values that are not
  missing, times 100, each operation on doubles; and the integer 0 when no value is
  present.
\<close>

definition conformity_rate :: "cell list \<Rightarrow> py_number" where
  "conformity_rate col =
     (if length (filter notna col) = 0 then PyInt 0
      else PyFloat
             (float_mul
                (float_truediv
                   (float_of_int (int (length (filter (\<lambda>v. v = Str ''OK'') col))))
                   (float_of_int (int (length (filter notna col)))))
                (float_of_int 100)))"

section \<open>Ingestor\<close>

text \<open>
  Whitespace as \<^verbatim>\<open>str.strip()\<close> sees it, for the code points below 256: tab to carriage
  return, the four separators 28 to 31, space, NEL (133) and the no-break space (160).
\<close>

definition is_space :: "char \<Rightarrow> bool" where
  "is_space c = (of_char c \<in> {9, 10, 11, 12, 13, 28, 29, 30, 31, 32, 133, 160 :: nat})"

definition strip :: "string \<Rightarrow> string" where
  "strip s = rev (dropWhile is_space (rev (dropWhile is_space s)))"

text \<open>\<^verbatim>\<open>df.dropna(axis=1, how='all')\<close>: keep the columns that hold some present value.\<close>

definition dropna_columns :: "dataframe \<Rightarrow> dataframe" where
  "dropna_columns df = df\<lparr>cols := filter (\<lambda>(label, vs). list_ex notna vs) (cols df)\<rparr>"

text \<open>\<^verbatim>\<open>df.iloc[:, :n]\<close>.\<close>

definition iloc_columns :: "nat \<Rightarrow> dataframe \<Rightarrow> dataframe" where
  "iloc_columns n df = df\<lparr>cols := take n (cols df)\<rparr>"

text \<open>The values of row \<open>i\<close> of a frame, from left to right.\<close>

definition row_values :: "dataframe \<Rightarrow> nat \<Rightarrow> cell list" where
  "row_values df i = map (\<lambda>(label, vs). vs ! i) (cols df)"

definition mk_row :: "cell list \<Rightarrow> child_row" where
  "mk_row cs =
     \<lparr>Nome = cs ! 0, DN = cs ! 1, Data_1_Puericultura = cs ! 2,
      Dias_1_Puericultura = cs ! 3, A = cs ! 4, Qtd_Puericultura = cs ! 5, B = cs ! 6,
      Qtd_Peso_Altura = cs ! 7, C = cs ! 8, Data_1_Visita_ACS = cs ! 9,
      Dias_1_Visita_ACS = cs ! 10, Data_2_Visita_ACS = cs ! 11,
      Dias_2_Visita_ACS = cs ! 12, D = cs ! 13, E = cs ! 14\<rparr>"

text \<open>
  \<^verbatim>\<open>df.columns = column_names\<close>: pandas raises ValueError (its message is shortened
  here) unless the frame has as many columns as there are names; the frame is then read
  row by row under the new labels.
\<close>

definition set_columns :: "dataframe \<Rightarrow> py_error + child_row list" where
  "set_columns df =
     (if length (cols df) \<noteq> length column_names then Inl (ValueError ''Length mismatch'')
      else Inr (map (\<lambda>i. mk_row (row_values df i)) [0..<n_rows df]))"

text \<open>\<^verbatim>\<open>df['Unidade'] = value\<close>: a new column holding the same text in every row.\<close>

definition setitem_Unidade :: "string \<Rightarrow> child_row list \<Rightarrow> unit_row list" where
  "setitem_Unidade v df = map (\<lambda>row. child_row.extend row (unit_row.fields (Str v))) df"

text \<open>
  What the page shows: \<^verbatim>\<open>st.error\<close> and \<^verbatim>\<open>st.warning\<close> with their message. The
  quotation mark is code point 39, a tilde is 227, a acute 225, e acute 233.
\<close>

datatype diagnostic = St_error string | St_warning string

definition quoted :: "string \<Rightarrow> string" where
  "quoted s = [CHR 0x27] @ s @ [CHR 0x27]"

definition not_found_message :: "string \<Rightarrow> string" where
  "not_found_message file_path =
     ''Arquivo n'' @ [CHR 0xE3] @ ''o encontrado em '' @ quoted file_path @
     ''. Verifique se o nome do arquivo est'' @ [CHR 0xE1] @
     '' correto e se ele est'' @ [CHR 0xE1] @ '' na pasta '' @ quoted ''data'' @ ''.''"

definition empty_message :: string where
  "empty_message =
     ''O arquivo Excel parece estar vazio ou n'' @ [CHR 0xE3] @ ''o cont'' @ [CHR 0xE9] @
     ''m abas.''"

definition ignored_message :: "string \<Rightarrow> string" where
  "ignored_message unit_name =
     ''A aba '' @ quoted unit_name @ '' foi ignorada porque n'' @ [CHR 0xE3] @
     ''o possui colunas suficientes.''"

text \<open>\<^verbatim>\<open>str(e)\<close>; a KeyError prints the representation of its key.\<close>

fun str_of_error :: "py_error \<Rightarrow> string" where
  "str_of_error (KeyError k) = quoted k"
| "str_of_error (ValueError m) = m"
| "str_of_error (Exception m) = m"

definition read_error_message :: "string \<Rightarrow> py_error \<Rightarrow> string" where
  "read_error_message file_path e =
     ''Ocorreu um erro ao ler o arquivo Excel '' @ quoted file_path @ ''. Erro: '' @
     str_of_error e"

text \<open>
  The loop over \<^verbatim>\<open>all_sheets.items()\<close>, in the order of the workbook, with
  \<^verbatim>\<open>list_of_dfs\<close> and the diagnostics shown so far as state. An exception ends the loop
  and keeps the diagnostics already shown.
\<close>

fun sheets_loop ::
  "(string \<times> dataframe) list \<Rightarrow> unit_row list list \<Rightarrow> diagnostic list \<Rightarrow>
     diagnostic list \<times> (py_error + unit_row list list)" where
  "sheets_loop [] list_of_dfs shown = (shown, Inr list_of_dfs)"
| "sheets_loop ((unit_name, df0) # rest) list_of_dfs shown =
     (let df = dropna_columns df0 in
      if length (cols df) \<ge> length column_names then
        (case set_columns (iloc_columns (length column_names) df) of
           Inl e \<Rightarrow> (shown, Inl e)
         | Inr named \<Rightarrow>
             sheets_loop rest (list_of_dfs @ [setitem_Unidade (strip unit_name) named]) shown)
      else sheets_loop rest list_of_dfs (shown @ [St_warning (ignored_message unit_name)]))"

text \<open>
  What \<^verbatim>\<open>pd.read_excel(file_path, sheet_name=None, skiprows=3, header=0)\<close> does with
  an existing file: it raises (the message is kept), or it returns the sheets in the
  order of the workbook, each with its name. The file system maps a path to its file,
  \<open>None\<close> where \<^verbatim>\<open>os.path.exists\<close> is false.
\<close>

datatype excel_file = Unreadable string | Workbook "(string \<times> dataframe) list"

type_synonym filesystem = "string \<Rightarrow> excel_file option"

text \<open>
  The \<^verbatim>\<open>try\<close> block: \<open>Inl\<close> is an exception for the handler, \<open>Inr None\<close> the
  \<^verbatim>\<open>return None\<close> for a workbook without sheets, \<open>Inr (Some list_of_dfs)\<close> the normal
  end of the block.
\<close>

definition try_block ::
  "excel_file \<Rightarrow> diagnostic list \<times> (py_error + unit_row list list option)" where
  "try_block file =
     (case file of
        Unreadable m \<Rightarrow> ([], Inl (Exception m))
      | Workbook all_sheets \<Rightarrow>
          if all_sheets = [] then ([St_warning empty_message], Inr None)
          else (case sheets_loop all_sheets [] [] of
                  (shown, Inl e) \<Rightarrow> (shown, Inl e)
                | (shown, Inr list_of_dfs) \<Rightarrow> (shown, Inr (Some list_of_dfs))))"

text \<open>\<^verbatim>\<open>combined_df.dropna(subset=['Nome', 'DN'])\<close>.\<close>

definition dropna_subset :: "'a child_row_scheme list \<Rightarrow> 'a child_row_scheme list" where
  "dropna_subset df = filter (\<lambda>row. notna (Nome row) \<and> notna (DN row)) df"

text \<open>
  \<^verbatim>\<open>pd.to_datetime(col, errors='coerce')\<close>. The parser of pandas is a parameter:
  \<open>parse col v\<close> is the timestamp read from the present value \<open>v\<close> of the column \<open>col\<close>
  (pandas may infer the format from the whole column), \<open>None\<close> where \<open>v\<close> does not parse.
  A value that does not parse, and a missing one, becomes NaT.
\<close>

definition to_datetime_coerce ::
  "(cell list \<Rightarrow> cell \<Rightarrow> int option) \<Rightarrow> cell list \<Rightarrow> cell list" where
  "to_datetime_coerce parse col =
     map (\<lambda>v. case v of
                 Null \<Rightarrow> Null
               | _ \<Rightarrow> (case parse col v of None \<Rightarrow> Null | Some t \<Rightarrow> Timestamp t)) col"

text \<open>\<^verbatim>\<open>combined_df['DN'] = values\<close>, one value per row.\<close>

definition setitem_DN :: "cell list \<Rightarrow> 'a child_row_scheme list \<Rightarrow> 'a child_row_scheme list" where
  "setitem_DN values df = map2 (\<lambda>row v. row\<lparr>DN := v\<rparr>) df values"

text \<open>
  The body of \<^verbatim>\<open>load_data\<close>, lines 23 to 72: what one run of the function computes,
  the diagnostics shown and the value returned, \<open>None\<close> for Python's \<^verbatim>\<open>None\<close> and
  \<open>Some rows\<close> for the combined frame. The decorator of line 16 is \<open>cached_load_data\<close>
  below.
\<close>

definition load_data ::
  "(cell list \<Rightarrow> cell \<Rightarrow> int option) \<Rightarrow> filesystem \<Rightarrow> string \<Rightarrow>
     diagnostic list \<times> unit_row list option" where
  "load_data parse fs file_path =
     (case fs file_path of
        None \<Rightarrow> ([St_error (not_found_message file_path)], None)
      | Some file \<Rightarrow>
          (case try_block file of
             (shown, Inl e) \<Rightarrow> (shown @ [St_error (read_error_message file_path e)], None)
           | (shown, Inr None) \<Rightarrow> (shown, None)
           | (shown, Inr (Some list_of_dfs)) \<Rightarrow>
               if list_of_dfs = [] then (shown, None)
               else
                 (let combined_df = concat list_of_dfs;
                      combined_df = dropna_subset combined_df;
                      combined_df =
                        setitem_DN (to_datetime_coerce parse (map DN combined_df)) combined_df
                  in (shown, Some combined_df))))"

text \<open>
  \<^verbatim>\<open>load_data\<close> as decorated by \<^verbatim>\<open>@st.cache_data\<close> (line 16). The cache of the
  process is state: it maps the argument \<^verbatim>\<open>file_path\<close> to the result stored for it. A
  call whose path is in the cache returns the stored value, and replays the messages
  stored with it, without running the body and without looking at the file; any other
  call runs the body and stores its result. Nothing in the program removes an entry.
\<close>

type_synonym load_result = "diagnostic list \<times> unit_row list option"

type_synonym cache = "string \<Rightarrow> load_result option"

definition cached_load_data ::
  "(cell list \<Rightarrow> cell \<Rightarrow> int option) \<Rightarrow> cache \<Rightarrow> filesystem \<Rightarrow> string \<Rightarrow>
     load_result \<times> cache" where
  "cached_load_data parse cache fs file_path =
     (case cache file_path of
        Some stored \<Rightarrow> (stored, cache)
      | None \<Rightarrow>
          (let result = load_data parse fs file_path
           in (result, cache(file_path := Some result))))"

text \<open>The cache of a process that has not called \<^verbatim>\<open>load_data\<close> yet.\<close>

definition empty_cache :: cache where
  "empty_cache = (\<lambda>file_path. None)"

section \<open>Notions used to state the properties\<close>

text \<open>The number of the five practice fields of a row that hold exactly the text OK.\<close>

definition ok_fields :: "'a child_row_scheme \<Rightarrow> nat" where
  "ok_fields row = length (filter (\<lambda>v. v = Str ''OK'') [A row, B row, C row, D row, E row])"

text \<open>The columns of a sheet that are not entirely empty, and the sheets that have 15 of them.\<close>

definition kept_columns :: "dataframe \<Rightarrow> (string \<times> cell list) list" where
  "kept_columns df = filter (\<lambda>(label, vs). \<not> (\<forall>v \<in> set vs. v = Null)) (cols df)"

definition accepted :: "string \<times> dataframe \<Rightarrow> bool" where
  "accepted sheet = (15 \<le> length (kept_columns (snd sheet)))"

text \<open>The rows a sheet contributes: its first 15 kept columns under the canonical names, with the unit.\<close>

definition sheet_rows :: "string \<times> dataframe \<Rightarrow> unit_row list" where
  "sheet_rows sheet =
     map (\<lambda>i. child_row.extend (mk_row (map (\<lambda>(label, vs). vs ! i) (take 15 (kept_columns (snd sheet)))))
                (unit_row.fields (Str (strip (fst sheet)))))
       [0..<n_rows (snd sheet)]"

text \<open>The sheets of the file at a path that ingestion accepts; none when the file cannot be read.\<close>

definition accepted_sheets :: "filesystem \<Rightarrow> string \<Rightarrow> (string \<times> dataframe) list" where
  "accepted_sheets fs file_path =
     (case fs file_path of
        Some (Workbook all_sheets) \<Rightarrow> filter accepted all_sheets
      | _ \<Rightarrow> [])"

section \<open>Sample data\<close>

text \<open>A frame given by its labels and its rows.\<close>

definition frame_of_rows :: "string list \<Rightarrow> cell list list \<Rightarrow> dataframe" where
  "frame_of_rows labels rows =
     \<lparr>n_rows = length rows,
      cols = map (\<lambda>j. (labels ! j, map (\<lambda>r. r ! j) rows)) [0..<length labels]\<rparr>"

definition blank_row :: child_row where
  "blank_row =
     \<lparr>Nome = Null, DN = Null, Data_1_Puericultura = Null, Dias_1_Puericultura = Null,
      A = Null, Qtd_Puericultura = Null, B = Null, Qtd_Peso_Altura = Null, C = Null,
      Data_1_Visita_ACS = Null, Dias_1_Visita_ACS = Null, Data_2_Visita_ACS = Null,
      Dias_2_Visita_ACS = Null, D = Null, E = Null\<rparr>"

text \<open>
  A workbook for the samples. A full line of a sheet has the name, the birth date and 13
  further cells, all present. The sheet \<open>clinic_sheet\<close> has 17 columns: an entirely
  empty one after the birth date and a column of remarks at the end; its four lines are
  Maria, whose birth date is the text 31/02/2020 (not a date), Ana with a date cell,
  Joao without a birth date, and a line without a name. The sheet \<open>narrow_sheet\<close> has
  10 columns. In \<open>nameless_sheet\<close> every line lacks the name or the birth date.
\<close>

definition sample_cells :: "cell \<Rightarrow> cell \<Rightarrow> cell list" where
  "sample_cells name dn =
     [name, dn, Timestamp 1580515200, Num 7, Str ''OK'', Num 3, Str ''OK'', Num 2,
      Str ''Pendente'', Timestamp 1583020800, Num 9, Timestamp 1585699200, Num 40,
      Str ''OK'', Str ''ok'']"

definition widen :: "cell list \<Rightarrow> cell list" where
  "widen cs = take 2 cs @ [Null] @ drop 2 cs @ [Str ''obs'']"

definition sample_header :: "nat \<Rightarrow> string list" where
  "sample_header n = map (\<lambda>j. ''Unnamed'') [0..<n]"

definition clinic_sheet :: dataframe where
  "clinic_sheet =
     frame_of_rows (sample_header 17)
       [widen (sample_cells (Str ''Maria'') (Str ''31/02/2020'')),
        widen (sample_cells (Str ''Ana'') (Timestamp 1577836800)),
        widen (sample_cells (Str ''Joao'') Null),
        widen (sample_cells Null (Timestamp 1577923200))]"

definition narrow_sheet :: dataframe where
  "narrow_sheet =
     frame_of_rows (sample_header 10)
       [take 10 (sample_cells (Str ''Rita'') (Timestamp 1577836800))]"

definition nameless_sheet :: dataframe where
  "nameless_sheet =
     frame_of_rows (sample_header 15)
       [sample_cells (Str ''Joao'') Null, sample_cells Null (Timestamp 1577923200)]"

definition sample_path :: string where
  "sample_path = ''data/monitoramento.xlsx''"

definition sample_fs :: "excel_file option \<Rightarrow> filesystem" where
  "sample_fs file = (\<lambda>path. if path = sample_path then file else None)"

definition sample_workbook :: "(string \<times> dataframe) list" where
  "sample_workbook = [(''UBS Norte'', narrow_sheet), ('' Clinic A '', clinic_sheet)]"

text \<open>A parser for the samples: date and numeric cells are read, text is not a date.\<close>

definition sample_parse :: "cell list \<Rightarrow> cell \<Rightarrow> int option" where
  "sample_parse col v = (case v of Timestamp t \<Rightarrow> Some t | Num n \<Rightarrow> Some n | _ \<Rightarrow> None)"

text \<open>The line of \<open>clinic_sheet\<close> with the given name and birth date, as ingested.\<close>

definition clinic_row :: "cell \<Rightarrow> cell \<Rightarrow> unit_row" where
  "clinic_row name dn =
     child_row.extend (mk_row (sample_cells name dn)) (unit_row.fields (Str ''Clinic A''))"

text \<open>Twenty-five rows, seven of them with OK in practice A and no value missing there.\<close>

definition seven_of_25 :: "child_row list" where
  "seven_of_25 =
     replicate 7 (blank_row\<lparr>A := Str ''OK''\<rparr>) @ replicate 18 (blank_row\<lparr>A := Str ''Pendente''\<rparr>)"

section \<open>Properties of the scorer\<close>

lemma getitem_indicadores:
  "getitem row ''A'' = Some (A row)" "getitem row ''B'' = Some (B row)"
  "getitem row ''C'' = Some (C row)" "getitem row ''D'' = Some (D row)"
  "getitem row ''E'' = Some (E row)"
  by (simp_all add: getitem_def selector_def)

lemma calculate_score_eq:
  "calculate_score row = Inr (20 * int (ok_fields row))"
  by (simp add: calculate_score_def indicadores_def getitem_indicadores ok_fields_def)

lemma ok_fields_le: "ok_fields row \<le> 5"
proof -
  have "ok_fields row \<le> length [A row, B row, C row, D row, E row]"
    unfolding ok_fields_def by (rule length_filter_le)
  then show ?thesis by simp
qed

text \<open>
  C1. Every row gets the score 20 times the number of its practice fields A to E that
  hold exactly the text OK; a field holding any other value, or a missing value, adds
  nothing; the score is one of 0, 20, 40, 60, 80, 100, and no key lookup fails.
\<close>

theorem C1_score_counts_ok:
  "calculate_score row = Inr (20 * int (ok_fields row)) \<and>
   ok_fields row =
     (if A row = Str ''OK'' then 1 else 0) + (if B row = Str ''OK'' then 1 else 0) +
     (if C row = Str ''OK'' then 1 else 0) + (if D row = Str ''OK'' then 1 else 0) +
     (if E row = Str ''OK'' then 1 else 0) \<and>
   (\<exists>s \<in> {0, 20, 40, 60, 80, 100}. calculate_score row = Inr s)"
proof -
  have cnt: "ok_fields row =
     (if A row = Str ''OK'' then 1 else 0) + (if B row = Str ''OK'' then 1 else 0) +
     (if C row = Str ''OK'' then 1 else 0) + (if D row = Str ''OK'' then 1 else 0) +
     (if E row = Str ''OK'' then 1 else 0)"
    by (simp add: ok_fields_def)
  have "ok_fields row \<in> {0, 1, 2, 3, 4, 5}"
    using ok_fields_le [of row] by (simp add: numeral_eq_Suc le_Suc_eq)
  then have "20 * int (ok_fields row) \<in> {0, 20, 40, 60, 80, 100}"
    by auto
  then show ?thesis
    using cnt calculate_score_eq [of row] by simp
qed

theorem C1_score_counts_ok_witness:
  "calculate_score
     (blank_row\<lparr>A := Str ''OK'', B := Str ''ok'', D := Str '' OK'', E := Str ''OK''\<rparr>) = Inr 40"
  using C1_score_counts_ok
    [of "blank_row\<lparr>A := Str ''OK'', B := Str ''ok'', D := Str '' OK'', E := Str ''OK''\<rparr>"]
  by (simp add: blank_row_def)

lemma classification_distinct:
  "Otimo \<noteq> Bom" "Otimo \<noteq> Suficiente" "Otimo \<noteq> Regular"
  "Bom \<noteq> Suficiente" "Bom \<noteq> Regular" "Suficiente \<noteq> Regular"
  by (simp_all add: Otimo_def Bom_def Suficiente_def Regular_def)

text \<open>
  C2. The tier is a total function of the score alone, with intervals open below and
  closed above: above 75 and up to 100 it is the first tier (Excellent), above 50 and up
  to 75 the second (Good), above 25 and up to 50 the third (Sufficient), and every other
  score, in particular every score up to 25, is Regular; 76, 75, 51, 50, 26, 25 and 0
  fall as the thresholds say, and the four tiers are different values.
\<close>

theorem C2_classification_thresholds:
  "(75 < s \<and> s \<le> 100 \<longrightarrow> get_classification s = Otimo) \<and>
   (50 < s \<and> s \<le> 75 \<longrightarrow> get_classification s = Bom) \<and>
   (25 < s \<and> s \<le> 50 \<longrightarrow> get_classification s = Suficiente) \<and>
   (\<not> (25 < s \<and> s \<le> 100) \<longrightarrow> get_classification s = Regular) \<and>
   (s \<le> 25 \<longrightarrow> get_classification s = Regular) \<and>
   get_classification 76 = Otimo \<and> get_classification 75 = Bom \<and>
   get_classification 51 = Bom \<and> get_classification 50 = Suficiente \<and>
   get_classification 26 = Suficiente \<and> get_classification 25 = Regular \<and>
   get_classification 0 = Regular \<and>
   distinct [Otimo, Bom, Suficiente, Regular]"
  by (simp add: get_classification_def classification_distinct)

theorem C2_classification_thresholds_witness:
  "get_classification 80 = Otimo \<and> get_classification 60 = Bom \<and>
   get_classification 40 = Suficiente \<and> get_classification 20 = Regular \<and>
   get_classification 120 = Regular \<and> Otimo \<noteq> Bom"
  using C2_classification_thresholds [of 80] C2_classification_thresholds [of 60]
    C2_classification_thresholds [of 40] C2_classification_thresholds [of 20]
    C2_classification_thresholds [of 120]
  by simp

text \<open>
  C10. Two rows that agree on the practice fields A to E get the same score, whatever
  their name, birth date, other fields, or columns added later (the unit).
\<close>

theorem C10_score_depends_on_indicators:
  fixes r1 :: "'a child_row_scheme" and r2 :: "'b child_row_scheme"
  assumes "A r1 = A r2" "B r1 = B r2" "C r1 = C r2" "D r1 = D r2" "E r1 = E r2"
  shows "calculate_score r1 = calculate_score r2"
  using assms by (simp add: calculate_score_eq ok_fields_def)

theorem C10_score_depends_on_indicators_witness:
  "calculate_score
     (blank_row\<lparr>Nome := Str ''Maria'', DN := Timestamp 5, A := Str ''OK'',
        Qtd_Puericultura := Num 3\<rparr>) =
   calculate_score
     (child_row.extend (blank_row\<lparr>Nome := Str ''Ana'', A := Str ''OK''\<rparr>)
        (unit_row.fields (Str ''UBS 1''))) \<and>
   calculate_score
     (blank_row\<lparr>Nome := Str ''Maria'', DN := Timestamp 5, A := Str ''OK'',
        Qtd_Puericultura := Num 3\<rparr>) = Inr 20"
proof -
  let ?r1 = "blank_row\<lparr>Nome := Str ''Maria'', DN := Timestamp 5, A := Str ''OK'',
    Qtd_Puericultura := Num 3\<rparr>"
  let ?r2 = "child_row.extend (blank_row\<lparr>Nome := Str ''Ana'', A := Str ''OK''\<rparr>)
    (unit_row.fields (Str ''UBS 1''))"
  have "A ?r1 = A ?r2" "B ?r1 = B ?r2" "C ?r1 = C ?r2" "D ?r1 = D ?r2" "E ?r1 = E ?r2"
    by (simp_all add: blank_row_def child_row.defs)
  from C10_score_depends_on_indicators [OF this]
  have "calculate_score ?r1 = calculate_score ?r2" .
  moreover have "calculate_score ?r1 = Inr 20"
    by (simp add: calculate_score_eq ok_fields_def blank_row_def)
  ultimately show ?thesis by simp
qed

section \<open>Properties of the conformity rate\<close>

lemma bool_sum_filter: "bool_sum (map P xs) = int (length (filter P xs))"
  by (induction xs) (simp_all add: bool_sum_def)

lemma selector_indicadores:
  "selector ''A'' = Some A" "selector ''B'' = Some B" "selector ''C'' = Some C"
  "selector ''D'' = Some D" "selector ''E'' = Some E"
  by (simp_all add: selector_def)

lemma compliance_selector:
  "selector ind = Some sel \<Longrightarrow> compliance df ind = Inr (conformity_rate (map sel df))"
  by (simp add: compliance_def getitem_column_def bool_sum_filter conformity_rate_def Let_def)

lemma conformity_rate_all_null:
  assumes "\<forall>v \<in> set col. v = Null"
  shows "conformity_rate col = PyInt 0"
proof -
  from assms have "filter notna col = []"
    by (simp add: filter_empty_conv notna_def)
  then show ?thesis by (simp add: conformity_rate_def)
qed

lemmas float_eval =
  float_of_int_def round_nearest_def floor_log2_def round_half_even_def bit_length.simps Let_def

lemma rate_7_of_25:
  "float_mul (float_truediv (float_of_int 7) (float_of_int 25)) (float_of_int 100) =
     Finite 7881299347898369 (- 48)"
  by (simp add: float_eval)

lemma rate_1_of_2:
  "float_mul (float_truediv (float_of_int 1) (float_of_int 2)) (float_of_int 100) =
     Finite 7036874417766400 (- 47)"
  by (simp add: float_eval)

lemma seven_of_25_counts:
  "length (filter (\<lambda>v. v = Str ''OK'') (map A seven_of_25)) = 7"
  "length (filter notna (map A seven_of_25)) = 25"
  by (simp_all add: seven_of_25_def blank_row_def notna_def)

text \<open>
  Of the 25 sample rows, 7 hold OK in practice A and none is missing there. The rate
  computed is the double 28.000000000000004, which is not 7 / 25 * 100 = 28: the
  quotient 7 / 25 is rounded to a double before it is multiplied by 100.
\<close>

theorem C7_rate_is_rounded_counterexample:
  "compliance seven_of_25 ''A'' = Inr (PyFloat (Finite 7881299347898369 (- 48))) \<and>
   length (filter (\<lambda>v. v = Str ''OK'') (map A seven_of_25)) = 7 \<and>
   length (filter notna (map A seven_of_25)) = 25 \<and>
   float_value 7881299347898369 (- 48) = 28 + 1 / 2 ^ 48 \<and>
   float_value 7881299347898369 (- 48) \<noteq> 7 / 25 * 100"
proof -
  have "conformity_rate (map A seven_of_25) =
      PyFloat (float_mul (float_truediv (float_of_int (int 7)) (float_of_int (int 25)))
                 (float_of_int 100))"
    unfolding conformity_rate_def seven_of_25_counts by simp
  then have "conformity_rate (map A seven_of_25) = PyFloat (Finite 7881299347898369 (- 48))"
    by (simp add: rate_7_of_25)
  moreover have "compliance seven_of_25 ''A'' = Inr (conformity_rate (map A seven_of_25))"
    by (rule compliance_selector) (rule selector_indicadores)
  ultimately have "compliance seven_of_25 ''A'' = Inr (PyFloat (Finite 7881299347898369 (- 48)))"
    by (simp only:)
  moreover have "float_value 7881299347898369 (- 48) = 28 + 1 / 2 ^ 48"
    by (simp add: float_value_def)
  moreover have "float_value 7881299347898369 (- 48) \<noteq> 7 / 25 * 100"
    by (simp add: float_value_def)
  ultimately show ?thesis
    using seven_of_25_counts by blast
qed

text \<open>
  C7, as the code has it. For each practice A to E and every set of rows, the rate
  computed is the number of rows whose value is exactly OK, divided by the number of
  rows whose value is present, times 100, in the arithmetic of doubles: the quotient is
  rounded to the nearest double, and so is its product with 100. When no row has a
  present value the rate is the integer 0, not the NaN of a division by zero, as for B
  when B is missing in all rows. The loop delivers the five rates in the order A to E.
\<close>

theorem C7_conformity_rate:
  "compliance df ''A'' = Inr (conformity_rate (map A df)) \<and>
   compliance df ''B'' = Inr (conformity_rate (map B df)) \<and>
   compliance df ''C'' = Inr (conformity_rate (map C df)) \<and>
   compliance df ''D'' = Inr (conformity_rate (map D df)) \<and>
   compliance df ''E'' = Inr (conformity_rate (map E df)) \<and>
   compliance_loop df indicadores [] =
     Inr [(pratica_label ''A'', conformity_rate (map A df)),
          (pratica_label ''B'', conformity_rate (map B df)),
          (pratica_label ''C'', conformity_rate (map C df)),
          (pratica_label ''D'', conformity_rate (map D df)),
          (pratica_label ''E'', conformity_rate (map E df))] \<and>
   ((\<forall>row \<in> set df. B row = Null) \<longrightarrow> compliance df ''B'' = Inr (PyInt 0)) \<and>
   float_truediv (float_of_int 0) (float_of_int 0) = NaN"
proof -
  have "(\<forall>row \<in> set df. B row = Null) \<longrightarrow> conformity_rate (map B df) = PyInt 0"
    by (simp add: conformity_rate_all_null)
  moreover have "float_truediv (float_of_int 0) (float_of_int 0) = NaN"
    by (simp add: float_eval)
  ultimately show ?thesis
    by (simp add: compliance_selector selector_indicadores indicadores_def)
qed

theorem C7_conformity_rate_witness:
  "compliance [blank_row\<lparr>A := Str ''OK''\<rparr>, blank_row\<lparr>A := Str ''ok''\<rparr>, blank_row] ''B'' =
     Inr (PyInt 0) \<and>
   compliance [blank_row\<lparr>A := Str ''OK''\<rparr>, blank_row\<lparr>A := Str ''ok''\<rparr>, blank_row] ''A'' =
     Inr (PyFloat (Finite 7036874417766400 (- 47))) \<and>
   float_value 7036874417766400 (- 47) = 50"
proof -
  let ?df = "[blank_row\<lparr>A := Str ''OK''\<rparr>, blank_row\<lparr>A := Str ''ok''\<rparr>, blank_row]"
  have b: "\<forall>row \<in> set ?df. B row = Null"
    by (simp add: blank_row_def)
  have a: "conformity_rate (map A ?df) = PyFloat (Finite 7036874417766400 (- 47))"
    by (simp add: conformity_rate_def blank_row_def notna_def rate_1_of_2)
  have v: "float_value 7036874417766400 (- 47) = 50"
    by (simp add: float_value_def)
  from C7_conformity_rate [of ?df]
  have c: "compliance ?df ''A'' = Inr (conformity_rate (map A ?df))"
    and d: "(\<forall>row \<in> set ?df. B row = Null) \<longrightarrow> compliance ?df ''B'' = Inr (PyInt 0)"
    by blast+
  from d b have "compliance ?df ''B'' = Inr (PyInt 0)" by blast
  moreover from c a have "compliance ?df ''A'' = Inr (PyFloat (Finite 7036874417766400 (- 47)))"
    by (simp only:)
  ultimately show ?thesis using v by blast
qed

section \<open>Properties of the ingestor\<close>

lemma length_column_names: "length column_names = 15"
  by (simp add: column_names_def)

lemma cols_dropna_columns: "cols (dropna_columns df) = kept_columns df"
proof -
  have "(\<lambda>(label :: string, vs). list_ex notna vs) = (\<lambda>(label, vs). \<not> (\<forall>v \<in> set vs. v = Null))"
    by (auto simp: fun_eq_iff list_ex_iff notna_def)
  then show ?thesis by (simp add: dropna_columns_def kept_columns_def)
qed

lemma n_rows_dropna_columns: "n_rows (dropna_columns df) = n_rows df"
  by (simp add: dropna_columns_def)

lemma accepted_step:
  assumes "accepted (unit_name, df)"
  shows "set_columns (iloc_columns (length column_names) (dropna_columns df)) =
           Inr (map (\<lambda>i. mk_row (map (\<lambda>(label, vs). vs ! i) (take 15 (kept_columns df)))) [0..<n_rows df])"
  using assms
  by (simp add: set_columns_def iloc_columns_def cols_dropna_columns n_rows_dropna_columns
      length_column_names accepted_def row_values_def)

lemma sheets_loop_eq:
  "sheets_loop sheets list_of_dfs shown =
     (shown @ map (\<lambda>sheet. St_warning (ignored_message (fst sheet))) (filter (\<lambda>sheet. \<not> accepted sheet) sheets),
      Inr (list_of_dfs @ map sheet_rows (filter accepted sheets)))"
proof (induction sheets arbitrary: list_of_dfs shown)
  case Nil
  show ?case by simp
next
  case (Cons sheet sheets)
  obtain unit_name df where sheet: "sheet = (unit_name, df)" by (cases sheet)
  show ?case
  proof (cases "accepted (unit_name, df)")
    case True
    then have len: "length column_names \<le> length (cols (dropna_columns df))"
      by (simp add: accepted_def cols_dropna_columns length_column_names)
    have rows: "setitem_Unidade (strip unit_name) (map (\<lambda>i. mk_row (map (\<lambda>(label, vs). vs ! i) (take 15 (kept_columns df)))) [0..<n_rows df]) = sheet_rows (unit_name, df)"
      by (simp add: setitem_Unidade_def sheet_rows_def)
    show ?thesis
      using True len by (simp add: sheet Cons.IH accepted_step [OF True] rows)
  next
    case False
    then have len: "\<not> length column_names \<le> length (cols (dropna_columns df))"
      by (simp add: accepted_def cols_dropna_columns length_column_names)
    show ?thesis
      using False len by (simp add: sheet Cons.IH)
  qed
qed


lemma setitem_DN_coerce:
  "setitem_DN (to_datetime_coerce parse (map DN df)) df =
     map (\<lambda>row. row\<lparr>DN := (case DN row of Null \<Rightarrow> Null
                                | _ \<Rightarrow> (case parse (map DN df) (DN row) of None \<Rightarrow> Null | Some t \<Rightarrow> Timestamp t))\<rparr>) df"
proof -
  have "map2 (\<lambda>row v. row\<lparr>DN := v\<rparr>) df (map (\<lambda>row. f (DN row)) df) = map (\<lambda>row. row\<lparr>DN := f (DN row)\<rparr>) df" for f :: "cell \<Rightarrow> cell"
    by (induction df) simp_all
  then show ?thesis
    by (simp add: setitem_DN_def to_datetime_coerce_def comp_def)
qed

lemma load_data_workbook:
  assumes "fs file_path = Some (Workbook all_sheets)"
  shows "load_data parse fs file_path =
    (if all_sheets = [] then ([St_warning empty_message], None)
     else (map (\<lambda>sheet. St_warning (ignored_message (fst sheet))) (filter (\<lambda>sheet. \<not> accepted sheet) all_sheets),
           if filter accepted all_sheets = [] then None
           else Some (setitem_DN
                  (to_datetime_coerce parse (map DN (dropna_subset (concat (map sheet_rows (filter accepted all_sheets))))))
                  (dropna_subset (concat (map sheet_rows (filter accepted all_sheets)))))))"
  using assms by (simp add: load_data_def try_block_def sheets_loop_eq Let_def)

lemma load_data_missing:
  "fs file_path = None \<Longrightarrow> load_data parse fs file_path = ([St_error (not_found_message file_path)], None)"
  by (simp add: load_data_def)

lemma load_data_unreadable:
  "fs file_path = Some (Unreadable m) \<Longrightarrow>
   load_data parse fs file_path = ([St_error (read_error_message file_path (Exception m))], None)"
  by (simp add: load_data_def try_block_def)

lemma getitem_mk_row:
  assumes "j < 15"
  shows "getitem (child_row.extend (mk_row cs) ext) (column_names ! j) = Some (cs ! j)"
proof -
  from assms have "j = 0 \<or> j = 1 \<or> j = 2 \<or> j = 3 \<or> j = 4 \<or> j = 5 \<or> j = 6 \<or> j = 7 \<or>
      j = 8 \<or> j = 9 \<or> j = 10 \<or> j = 11 \<or> j = 12 \<or> j = 13 \<or> j = 14"
    by arith
  then show ?thesis
    by (elim disjE) (simp_all add: getitem_def selector_def column_names_def mk_row_def child_row.defs)
qed

lemma split_trailing:
  "xs = rev (dropWhile P (rev xs)) @ rev (takeWhile P (rev xs))"
proof -
  have "rev (rev xs) = rev (takeWhile P (rev xs) @ dropWhile P (rev xs))"
    by (simp only: takeWhile_dropWhile_id)
  then show ?thesis by (simp only: rev_append rev_rev_ident)
qed

lemma strip_decompose:
  "\<exists>pre suf. s = pre @ strip s @ suf \<and> (\<forall>c \<in> set pre. is_space c) \<and> (\<forall>c \<in> set suf. is_space c)"
proof -
  let ?t = "dropWhile is_space s"
  have t: "?t = strip s @ rev (takeWhile is_space (rev ?t))"
    unfolding strip_def by (rule split_trailing)
  have "s = takeWhile is_space s @ ?t" by simp
  with t have "s = takeWhile is_space s @ strip s @ rev (takeWhile is_space (rev ?t))" by simp
  moreover have "\<forall>c \<in> set (takeWhile is_space s). is_space c"
    by (auto dest: set_takeWhileD)
  moreover have "\<forall>c \<in> set (rev (takeWhile is_space (rev ?t))). is_space c"
    by (auto dest: set_takeWhileD)
  ultimately show ?thesis by blast
qed

lemma strip_ends:
  assumes "strip s \<noteq> []"
  shows "\<not> is_space (hd (strip s)) \<and> \<not> is_space (last (strip s))"
proof -
  let ?t = "dropWhile is_space s"
  let ?u = "dropWhile is_space (rev ?t)"
  have u: "?u \<noteq> []" using assms by (simp add: strip_def)
  have "last (strip s) = hd ?u" using u by (simp add: strip_def last_rev)
  moreover have "\<not> is_space (hd ?u)" using u by (rule hd_dropWhile)
  moreover have "\<not> is_space (hd (strip s))"
  proof -
    have t: "?t = strip s @ rev (takeWhile is_space (rev ?t))"
      unfolding strip_def by (rule split_trailing)
    then have "hd ?t = hd (strip s)" using assms by (metis hd_append2)
    moreover have "?t \<noteq> []" using t assms by (metis Nil_is_append_conv)
    then have "\<not> is_space (hd ?t)" by (rule hd_dropWhile)
    ultimately show ?thesis by simp
  qed
  ultimately show ?thesis by simp
qed

lemma accepted_iff: "accepted sheet \<longleftrightarrow> \<not> length (kept_columns (snd sheet)) < 15"
  by (auto simp: accepted_def)

lemma sheet_rows_getitem:
  assumes "accepted sheet" "i < n_rows (snd sheet)" "j < 15"
  shows "getitem (sheet_rows sheet ! i) (column_names ! j) = Some (snd (kept_columns (snd sheet) ! j) ! i)"
proof -
  from assms(1) have len: "15 \<le> length (kept_columns (snd sheet))" by (simp add: accepted_def)
  have "map (\<lambda>(label, vs). vs ! i) (take 15 (kept_columns (snd sheet))) ! j
        = snd (kept_columns (snd sheet) ! j) ! i"
    using len assms(3) by (simp add: case_prod_unfold)
  then show ?thesis
    using assms(2) by (simp add: sheet_rows_def getitem_mk_row [OF assms(3)])
qed

lemma length_sheet_rows: "length (sheet_rows sheet) = n_rows (snd sheet)"
  by (simp add: sheet_rows_def)

lemma Unidade_sheet_rows:
  "row \<in> set (sheet_rows sheet) \<Longrightarrow> Unidade row = Str (strip (fst sheet))"
  by (auto simp: sheet_rows_def child_row.defs unit_row.defs)

text \<open>
  C4. For every sheet of the workbook, in order: the entirely empty columns are dropped
  first; a sheet left with fewer than 15 columns contributes no frame and no row, and a
  warning is shown whose text holds the name of the sheet between quotation marks (the
  text of line 57), while the loop goes on with the other sheets; a sheet
  with 15 or more columns contributes one frame with as many rows as the sheet, whose
  value under the j-th canonical name is the value of the j-th kept column, for the
  first 15 kept columns only. No exception is raised.
\<close>

theorem C4_sheet_normalisation:
  "\<exists>frames.
     sheets_loop sheets [] [] =
       (map (\<lambda>sheet. St_warning
                 (''A aba '' @ [CHR 0x27] @ fst sheet @ [CHR 0x27] @
                  '' foi ignorada porque n'' @ [CHR 0xE3] @
                  ''o possui colunas suficientes.''))
          (filter (\<lambda>sheet. length (kept_columns (snd sheet)) < 15) sheets),
        Inr frames) \<and>
     length frames = length (filter accepted sheets) \<and>
     (\<forall>k < length frames.
        length (frames ! k) = n_rows (snd (filter accepted sheets ! k)) \<and>
        (\<forall>i < n_rows (snd (filter accepted sheets ! k)). \<forall>j < 15.
           getitem (frames ! k ! i) (column_names ! j) =
             Some (snd (kept_columns (snd (filter accepted sheets ! k)) ! j) ! i)))"
proof -
  let ?acc = "filter accepted sheets"
  have rejected: "(\<lambda>sheet. \<not> accepted sheet) = (\<lambda>sheet. length (kept_columns (snd sheet)) < 15)"
    by (simp add: fun_eq_iff accepted_iff)
  have loop: "sheets_loop sheets [] [] =
       (map (\<lambda>sheet. St_warning
                 (''A aba '' @ [CHR 0x27] @ fst sheet @ [CHR 0x27] @
                  '' foi ignorada porque n'' @ [CHR 0xE3] @
                  ''o possui colunas suficientes.''))
          (filter (\<lambda>sheet. length (kept_columns (snd sheet)) < 15) sheets),
        Inr (map sheet_rows ?acc))"
    by (simp add: sheets_loop_eq rejected ignored_message_def quoted_def)
  have "\<forall>k < length (map sheet_rows ?acc).
        length (map sheet_rows ?acc ! k) = n_rows (snd (?acc ! k)) \<and>
        (\<forall>i < n_rows (snd (?acc ! k)). \<forall>j < 15.
           getitem (map sheet_rows ?acc ! k ! i) (column_names ! j) =
             Some (snd (kept_columns (snd (?acc ! k)) ! j) ! i))"
  proof (intro allI impI conjI)
    fix k assume k: "k < length (map sheet_rows ?acc)"
    then show "length (map sheet_rows ?acc ! k) = n_rows (snd (?acc ! k))"
      by (simp add: length_sheet_rows)
    fix i j :: nat assume ij: "i < n_rows (snd (?acc ! k))" "j < 15"
    from k have "?acc ! k \<in> set ?acc" by (simp only: length_map nth_mem)
    then have "accepted (?acc ! k)" by simp
    from sheet_rows_getitem [OF this ij] k
    show "getitem (map sheet_rows ?acc ! k ! i) (column_names ! j) =
             Some (snd (kept_columns (snd (?acc ! k)) ! j) ! i)"
      by simp
  qed
  with loop show ?thesis by (intro exI [of _ "map sheet_rows ?acc"]) simp
qed

lemma sample_accepted: "filter accepted sample_workbook = [('' Clinic A '', clinic_sheet)]"
  by code_simp

lemma sample_rejected:
  "filter (\<lambda>sheet. length (kept_columns (snd sheet)) < 15) sample_workbook = [(''UBS Norte'', narrow_sheet)]"
  by code_simp

lemma sample_kept_cell: "snd (kept_columns clinic_sheet ! 4) ! 0 = Str ''OK''" "n_rows clinic_sheet = 4"
  "snd (kept_columns clinic_sheet ! 2) ! 0 = Timestamp 1580515200"
  by code_simp+

theorem C4_sheet_normalisation_witness:
  "\<exists>frames.
     sheets_loop sample_workbook [] [] = ([St_warning
          (''A aba '' @ [CHR 0x27] @ ''UBS Norte'' @ [CHR 0x27] @
           '' foi ignorada porque n'' @ [CHR 0xE3] @ ''o possui colunas suficientes.'')], Inr frames) \<and>
     length frames = 1 \<and> length (frames ! 0) = 4 \<and>
     getitem (frames ! 0 ! 0) ''A'' = Some (Str ''OK'') \<and>
     getitem (frames ! 0 ! 0) ''Data_1_Puericultura'' = Some (Timestamp 1580515200)"
proof -
  from C4_sheet_normalisation [of sample_workbook] obtain frames where
    loop: "sheets_loop sample_workbook [] [] =
       (map (\<lambda>sheet. St_warning
                 (''A aba '' @ [CHR 0x27] @ fst sheet @ [CHR 0x27] @
                  '' foi ignorada porque n'' @ [CHR 0xE3] @
                  ''o possui colunas suficientes.''))
          (filter (\<lambda>sheet. length (kept_columns (snd sheet)) < 15) sample_workbook),
        Inr frames)"
    and len: "length frames = length (filter accepted sample_workbook)"
    and rows: "\<forall>k < length frames.
        length (frames ! k) = n_rows (snd (filter accepted sample_workbook ! k)) \<and>
        (\<forall>i < n_rows (snd (filter accepted sample_workbook ! k)). \<forall>j < 15.
           getitem (frames ! k ! i) (column_names ! j) =
             Some (snd (kept_columns (snd (filter accepted sample_workbook ! k)) ! j) ! i))"
    by blast
  have len1: "length frames = 1" using len by (simp add: sample_accepted)
  then have k0: "(0::nat) < length frames" by simp
  from rows k0 have n: "length (frames ! 0) = 4"
    by (simp add: sample_accepted sample_kept_cell)
  have i0: "(0::nat) < n_rows (snd (filter accepted sample_workbook ! 0))"
    by (simp add: sample_accepted sample_kept_cell)
  from rows k0 i0 have "getitem (frames ! 0 ! 0) (column_names ! 4) =
       Some (snd (kept_columns (snd (filter accepted sample_workbook ! 0)) ! 4) ! 0)"
    by simp
  then have a: "getitem (frames ! 0 ! 0) ''A'' = Some (Str ''OK'')"
    by (simp add: sample_accepted sample_kept_cell column_names_def)
  from rows k0 i0 have "getitem (frames ! 0 ! 0) (column_names ! 2) =
       Some (snd (kept_columns (snd (filter accepted sample_workbook ! 0)) ! 2) ! 0)"
    by simp
  then have b: "getitem (frames ! 0 ! 0) ''Data_1_Puericultura'' = Some (Timestamp 1580515200)"
    by (simp add: sample_accepted sample_kept_cell column_names_def)
  from loop have "sheets_loop sample_workbook [] [] = ([St_warning
          (''A aba '' @ [CHR 0x27] @ ''UBS Norte'' @ [CHR 0x27] @
           '' foi ignorada porque n'' @ [CHR 0xE3] @ ''o possui colunas suficientes.'')], Inr frames)"
    by (simp add: sample_rejected)
  with len1 n a b show ?thesis by blast
qed

text \<open>
  C5. A missing file, a workbook without sheets and a file that \<^verbatim>\<open>read_excel\<close> cannot
  read each end ingestion with the value \<open>None\<close>, hence without any row, after one
  message: an error for the missing and for the unreadable file, a warning for the
  workbook without sheets.
\<close>

theorem C5_fatal_conditions_return_none:
  "(fs file_path = None \<longrightarrow>
      load_data parse fs file_path = ([St_error (not_found_message file_path)], None)) \<and>
   (fs file_path = Some (Workbook []) \<longrightarrow>
      load_data parse fs file_path = ([St_warning empty_message], None)) \<and>
   (fs file_path = Some (Unreadable m) \<longrightarrow>
      load_data parse fs file_path =
        ([St_error (read_error_message file_path (Exception m))], None))"
  by (simp add: load_data_missing load_data_unreadable load_data_workbook)

theorem C5_fatal_conditions_return_none_witness:
  "snd (load_data sample_parse (sample_fs None) sample_path) = None \<and>
   snd (load_data sample_parse (sample_fs (Some (Workbook []))) sample_path) = None \<and>
   snd (load_data sample_parse (sample_fs (Some (Unreadable ''File is not a zip file'')))
          sample_path) = None"
proof -
  have "sample_fs None sample_path = None"
    by (simp add: sample_fs_def)
  with C5_fatal_conditions_return_none
    [where fs = "sample_fs None" and file_path = sample_path and parse = sample_parse]
  have a: "snd (load_data sample_parse (sample_fs None) sample_path) = None" by simp
  have "sample_fs (Some (Workbook [])) sample_path = Some (Workbook [])"
    by (simp add: sample_fs_def)
  with C5_fatal_conditions_return_none
    [where fs = "sample_fs (Some (Workbook []))" and file_path = sample_path
      and parse = sample_parse]
  have b: "snd (load_data sample_parse (sample_fs (Some (Workbook []))) sample_path) = None"
    by simp
  have "sample_fs (Some (Unreadable ''File is not a zip file'')) sample_path =
      Some (Unreadable ''File is not a zip file'')"
    by (simp add: sample_fs_def)
  with C5_fatal_conditions_return_none
    [where fs = "sample_fs (Some (Unreadable ''File is not a zip file''))"
      and file_path = sample_path and m = "''File is not a zip file''"
      and parse = sample_parse]
  have c: "snd (load_data sample_parse (sample_fs (Some (Unreadable ''File is not a zip file'')))
          sample_path) = None"
    by simp
  from a b c show ?thesis by simp
qed

lemma dropna_subset_Nil:
  assumes "\<forall>row \<in> set df. Nome row = Null \<or> DN row = Null"
  shows "dropna_subset df = []"
  using assms by (auto simp: dropna_subset_def filter_empty_conv notna_def)

text \<open>
  C6. Ingestion returns \<open>None\<close> exactly when no sheet was accepted (which includes the
  file that is missing or cannot be read); with an accepted sheet it returns a collection
  of rows, and that collection is the empty one, different from \<open>None\<close>, when every row
  of the accepted sheets lacks the name or the birth date.
\<close>

theorem C6_none_iff_no_sheet_accepted:
  "(snd (load_data parse fs file_path) = None \<longleftrightarrow> accepted_sheets fs file_path = []) \<and>
   (accepted_sheets fs file_path \<noteq> [] \<longrightarrow>
      (\<exists>out. snd (load_data parse fs file_path) = Some out)) \<and>
   (accepted_sheets fs file_path \<noteq> [] \<and>
    (\<forall>sheet \<in> set (accepted_sheets fs file_path). \<forall>row \<in> set (sheet_rows sheet).
        Nome row = Null \<or> DN row = Null) \<longrightarrow>
      snd (load_data parse fs file_path) = Some [])"
proof (cases "fs file_path")
  case None
  then show ?thesis by (simp add: load_data_missing accepted_sheets_def)
next
  case (Some xl)
  show ?thesis
  proof (cases xl)
    case (Unreadable m)
    with Some show ?thesis by (simp add: load_data_unreadable accepted_sheets_def)
  next
    case (Workbook all_sheets)
    with Some have fs: "fs file_path = Some (Workbook all_sheets)" by simp
    note wb = load_data_workbook [where fs = fs and file_path = file_path, OF fs]
    have acc: "accepted_sheets fs file_path = filter accepted all_sheets"
      by (simp add: accepted_sheets_def fs)
    let ?combined = "concat (map sheet_rows (filter accepted all_sheets))"
    have empty: "dropna_subset ?combined = []"
      if "\<forall>sheet \<in> set (filter accepted all_sheets). \<forall>row \<in> set (sheet_rows sheet).
        Nome row = Null \<or> DN row = Null"
      using that by (intro dropna_subset_Nil) auto
    show ?thesis
    proof (cases "all_sheets = []")
      case True
      then show ?thesis by (simp add: wb acc)
    next
      case False
      show ?thesis
      proof (cases "filter accepted all_sheets = []")
        case True
        with False show ?thesis by (simp add: wb acc)
      next
        case nonempty: False
        have "snd (load_data parse fs file_path) =
            Some (setitem_DN (to_datetime_coerce parse (map DN (dropna_subset ?combined)))
                   (dropna_subset ?combined))"
          using False nonempty by (simp add: wb)
        then show ?thesis
          using nonempty empty by (auto simp: acc setitem_DN_def)
      qed
    qed
  qed
qed

lemma nameless_accepted:
  "accepted_sheets (sample_fs (Some (Workbook [(''UBS Sul'', nameless_sheet)]))) sample_path =
     [(''UBS Sul'', nameless_sheet)]"
  by code_simp

lemma nameless_rows:
  "list_all (\<lambda>row. Nome row = Null \<or> DN row = Null) (sheet_rows (''UBS Sul'', nameless_sheet))"
  by code_simp

lemma narrow_not_accepted:
  "accepted_sheets (sample_fs (Some (Workbook [(''UBS Norte'', narrow_sheet)]))) sample_path = []"
  by code_simp

theorem C6_none_iff_no_sheet_accepted_witness:
  "snd (load_data sample_parse (sample_fs (Some (Workbook [(''UBS Sul'', nameless_sheet)])))
          sample_path) = Some [] \<and>
   snd (load_data sample_parse (sample_fs (Some (Workbook [(''UBS Norte'', narrow_sheet)])))
          sample_path) = None"
proof -
  let ?fs = "sample_fs (Some (Workbook [(''UBS Sul'', nameless_sheet)]))"
  have rows: "\<forall>sheet \<in> set (accepted_sheets ?fs sample_path). \<forall>row \<in> set (sheet_rows sheet).
        Nome row = Null \<or> DN row = Null"
    using nameless_rows by (simp add: nameless_accepted list_all_iff)
  have ne: "accepted_sheets ?fs sample_path \<noteq> []"
    by (simp add: nameless_accepted)
  from C6_none_iff_no_sheet_accepted
    [where parse = sample_parse and fs = ?fs and file_path = sample_path] ne rows
  have a: "snd (load_data sample_parse ?fs sample_path) = Some []" by blast
  from C6_none_iff_no_sheet_accepted
    [where parse = sample_parse and file_path = sample_path
      and fs = "sample_fs (Some (Workbook [(''UBS Norte'', narrow_sheet)]))"]
    narrow_not_accepted
  have b: "snd (load_data sample_parse (sample_fs (Some (Workbook [(''UBS Norte'', narrow_sheet)])))
          sample_path) = None" by blast
  from a b show ?thesis by simp
qed

lemma load_data_Some:
  assumes "load_data parse fs file_path = (shown, Some out)"
  shows "\<exists>all_sheets. fs file_path = Some (Workbook all_sheets) \<and>
           filter accepted all_sheets \<noteq> [] \<and>
           accepted_sheets fs file_path = filter accepted all_sheets \<and>
           out = setitem_DN
                  (to_datetime_coerce parse
                     (map DN (dropna_subset (concat (map sheet_rows (filter accepted all_sheets))))))
                  (dropna_subset (concat (map sheet_rows (filter accepted all_sheets))))"
proof (cases "fs file_path")
  case None
  with assms show ?thesis by (simp add: load_data_missing)
next
  case (Some xl)
  show ?thesis
  proof (cases xl)
    case (Unreadable m)
    with Some assms show ?thesis by (simp add: load_data_unreadable)
  next
    case (Workbook all_sheets)
    with Some have fs: "fs file_path = Some (Workbook all_sheets)" by simp
    note wb = load_data_workbook [where fs = fs and file_path = file_path, OF fs]
    have acc: "accepted_sheets fs file_path = filter accepted all_sheets"
      by (simp add: accepted_sheets_def fs)
    from assms have "all_sheets \<noteq> []" "filter accepted all_sheets \<noteq> []"
      by (auto simp: wb split: if_splits)
    with assms fs acc show ?thesis
      by (simp add: wb)
  qed
qed

lemma out_rows:
  assumes "load_data parse fs file_path = (shown, Some out)" "row \<in> set out"
  shows "\<exists>sheet \<in> set (accepted_sheets fs file_path). \<exists>src \<in> set (sheet_rows sheet).
           Nome src \<noteq> Null \<and> DN src \<noteq> Null \<and> row = src\<lparr>DN := DN row\<rparr>"
proof -
  from load_data_Some [OF assms(1)] obtain all_sheets where
    acc: "accepted_sheets fs file_path = filter accepted all_sheets" and
    out: "out = setitem_DN
                  (to_datetime_coerce parse
                     (map DN (dropna_subset (concat (map sheet_rows (filter accepted all_sheets))))))
                  (dropna_subset (concat (map sheet_rows (filter accepted all_sheets))))"
    by blast
  from assms(2) obtain src where
    src: "src \<in> set (dropna_subset (concat (map sheet_rows (filter accepted all_sheets))))"
    and row: "row = src\<lparr>DN := DN row\<rparr>"
    unfolding out setitem_DN_coerce by auto
  from src obtain sheet where "sheet \<in> set (filter accepted all_sheets)"
    and rest: "src \<in> set (sheet_rows sheet)" "Nome src \<noteq> Null" "DN src \<noteq> Null"
    by (auto simp: dropna_subset_def notna_def)
  then have "sheet \<in> set (accepted_sheets fs file_path)" by (simp only: acc)
  with rest row show ?thesis by blast
qed

lemma strip_clinic: "strip '' Clinic A '' = ''Clinic A''"
  by (simp add: strip_def is_space_def)

text \<open>
  C8. Every row of the frame that the loop appends for an accepted sheet has as its unit
  the name of that sheet without leading and trailing whitespace, and so has every row
  that ingestion returns; the workbook whose only sheet is named Clinic A with a space
  on each side yields rows with the unit Clinic A. Stripping removes a run of
  whitespace on each side and nothing else, and leaves no whitespace at either end.
\<close>

theorem C8_unit_is_stripped_sheet_name:
  "(\<exists>frames. snd (sheets_loop sheets [] []) = Inr frames \<and>
      length frames = length (filter accepted sheets) \<and>
      (\<forall>k < length frames. \<forall>row \<in> set (frames ! k).
          Unidade row = Str (strip (fst (filter accepted sheets ! k))))) \<and>
   (load_data parse fs file_path = (shown, Some out) \<longrightarrow>
      (\<forall>row \<in> set out. \<exists>sheet \<in> set (accepted_sheets fs file_path).
          Unidade row = Str (strip (fst sheet)))) \<and>
   (load_data parse fs file_path = (shown, Some out) \<and>
    fs file_path = Some (Workbook [(unit_name, df)]) \<longrightarrow>
      (\<forall>row \<in> set out. Unidade row = Str (strip unit_name))) \<and>
   strip '' Clinic A '' = ''Clinic A'' \<and>
   (\<exists>pre suf. unit_name = pre @ strip unit_name @ suf \<and>
      (\<forall>c \<in> set pre. is_space c) \<and> (\<forall>c \<in> set suf. is_space c)) \<and>
   (strip unit_name \<noteq> [] \<longrightarrow>
      \<not> is_space (hd (strip unit_name)) \<and> \<not> is_space (last (strip unit_name)))"
proof -
  have loop: "\<exists>frames. snd (sheets_loop sheets [] []) = Inr frames \<and>
      length frames = length (filter accepted sheets) \<and>
      (\<forall>k < length frames. \<forall>row \<in> set (frames ! k).
          Unidade row = Str (strip (fst (filter accepted sheets ! k))))"
    by (intro exI [of _ "map sheet_rows (filter accepted sheets)"])
      (simp add: sheets_loop_eq Unidade_sheet_rows)
  have units: "\<exists>sheet \<in> set (accepted_sheets fs file_path). Unidade row = Str (strip (fst sheet))"
    if "load_data parse fs file_path = (shown, Some out)" "row \<in> set out" for row
  proof -
    from out_rows [OF that] obtain sheet src where
      sheet: "sheet \<in> set (accepted_sheets fs file_path)" and
      src: "src \<in> set (sheet_rows sheet)" and row: "row = src\<lparr>DN := DN row\<rparr>"
      by blast
    have "Unidade (src\<lparr>DN := d\<rparr>) = Unidade src" for d by simp
    with row have "Unidade row = Unidade src" by metis
    with Unidade_sheet_rows [OF src] sheet show ?thesis by auto
  qed
  have single: "Unidade row = Str (strip unit_name)"
    if "load_data parse fs file_path = (shown, Some out)"
      "fs file_path = Some (Workbook [(unit_name, df)])" "row \<in> set out" for row
  proof -
    from units [OF that(1,3)] obtain sheet where
      "sheet \<in> set (accepted_sheets fs file_path)" "Unidade row = Str (strip (fst sheet))"
      by blast
    moreover have "set (accepted_sheets fs file_path) \<subseteq> {(unit_name, df)}"
      by (simp add: accepted_sheets_def that(2))
    ultimately show ?thesis by auto
  qed
  from loop units single strip_clinic strip_decompose [of unit_name] strip_ends [of unit_name]
  show ?thesis by blast
qed


lemma clinic_load:
  "load_data sample_parse (sample_fs (Some (Workbook [('' Clinic A '', clinic_sheet)]))) sample_path =
     ([], Some [clinic_row (Str ''Maria'') Null, clinic_row (Str ''Ana'') (Timestamp 1577836800)])"
  by code_simp

theorem C8_unit_is_stripped_sheet_name_witness:
  "load_data sample_parse (sample_fs (Some (Workbook [('' Clinic A '', clinic_sheet)]))) sample_path =
     ([], Some [clinic_row (Str ''Maria'') Null, clinic_row (Str ''Ana'') (Timestamp 1577836800)]) \<and>
   map Unidade [clinic_row (Str ''Maria'') Null, clinic_row (Str ''Ana'') (Timestamp 1577836800)] =
     [Str ''Clinic A'', Str ''Clinic A'']"
proof -
  let ?fs = "sample_fs (Some (Workbook [('' Clinic A '', clinic_sheet)]))"
  let ?out = "[clinic_row (Str ''Maria'') Null, clinic_row (Str ''Ana'') (Timestamp 1577836800)]"
  have fs: "?fs sample_path = Some (Workbook [('' Clinic A '', clinic_sheet)])"
    by (simp add: sample_fs_def)
  from C8_unit_is_stripped_sheet_name
    [where parse = sample_parse and fs = ?fs and file_path = sample_path and shown = "[]"
      and out = ?out and unit_name = "'' Clinic A ''" and df = clinic_sheet]
  have "load_data sample_parse ?fs sample_path = ([], Some ?out) \<and>
      ?fs sample_path = Some (Workbook [('' Clinic A '', clinic_sheet)]) \<longrightarrow>
      (\<forall>row \<in> set ?out. Unidade row = Str (strip '' Clinic A ''))"
    and "strip '' Clinic A '' = ''Clinic A''"
    by blast+
  with clinic_load fs show ?thesis by simp
qed

text \<open>A workbook with two accepted sheets around a rejected one.\<close>

lemma two_units_load:
  "load_data sample_parse
     (sample_fs (Some (Workbook
        [('' Clinic A '', clinic_sheet), (''UBS Norte'', narrow_sheet), (''Posto B'', clinic_sheet)])))
     sample_path =
     ([St_warning (ignored_message ''UBS Norte'')],
      Some [clinic_row (Str ''Maria'') Null, clinic_row (Str ''Ana'') (Timestamp 1577836800),
            (clinic_row (Str ''Maria'') Null)\<lparr>Unidade := Str ''Posto B''\<rparr>,
            (clinic_row (Str ''Ana'') (Timestamp 1577836800))\<lparr>Unidade := Str ''Posto B''\<rparr>])"
  by code_simp

lemma filter_concat_map: "filter P (concat xss) = concat (map (filter P) xss)"
  by (induction xss) simp_all

lemma posto_load:
  "load_data sample_parse (sample_fs (Some (Workbook [(''Posto B'', clinic_sheet)]))) sample_path =
     ([], Some [(clinic_row (Str ''Maria'') Null)\<lparr>Unidade := Str ''Posto B''\<rparr>,
                (clinic_row (Str ''Ana'') (Timestamp 1577836800))\<lparr>Unidade := Str ''Posto B''\<rparr>])"
  by code_simp

text \<open>
  A process ingests the file while its only sheet is named Clinic A; the file is then
  replaced by one whose sheet is named Posto B. Ingesting the new file in the same
  process returns the rows of Clinic A, stored in the cache; ingesting the same new file
  in a process with an empty cache returns the rows of Posto B. The same unchanged file
  gives two different datasets.
\<close>

theorem C9_stale_cache_counterexample:
  "snd (fst (cached_load_data sample_parse
               (snd (cached_load_data sample_parse empty_cache
                       (sample_fs (Some (Workbook [('' Clinic A '', clinic_sheet)]))) sample_path))
               (sample_fs (Some (Workbook [(''Posto B'', clinic_sheet)]))) sample_path)) =
     Some [clinic_row (Str ''Maria'') Null, clinic_row (Str ''Ana'') (Timestamp 1577836800)] \<and>
   snd (fst (cached_load_data sample_parse empty_cache
               (sample_fs (Some (Workbook [(''Posto B'', clinic_sheet)]))) sample_path)) =
     Some [(clinic_row (Str ''Maria'') Null)\<lparr>Unidade := Str ''Posto B''\<rparr>,
           (clinic_row (Str ''Ana'') (Timestamp 1577836800))\<lparr>Unidade := Str ''Posto B''\<rparr>] \<and>
   Unidade (clinic_row (Str ''Maria'') Null) = Str ''Clinic A'' \<and>
   Unidade ((clinic_row (Str ''Maria'') Null)\<lparr>Unidade := Str ''Posto B''\<rparr>) = Str ''Posto B''"
proof -
  let ?fsA = "sample_fs (Some (Workbook [('' Clinic A '', clinic_sheet)]))"
  let ?fsB = "sample_fs (Some (Workbook [(''Posto B'', clinic_sheet)]))"
  let ?rA = "([] :: diagnostic list,
    Some [clinic_row (Str ''Maria'') Null, clinic_row (Str ''Ana'') (Timestamp 1577836800)])"
  have first: "cached_load_data sample_parse empty_cache ?fsA sample_path =
      (?rA, empty_cache(sample_path := Some ?rA))"
    by (simp add: cached_load_data_def empty_cache_def clinic_load Let_def)
  have stale: "cached_load_data sample_parse (empty_cache(sample_path := Some ?rA)) ?fsB
      sample_path = (?rA, empty_cache(sample_path := Some ?rA))"
    by (simp add: cached_load_data_def)
  have fresh: "fst (cached_load_data sample_parse empty_cache ?fsB sample_path) =
      ([], Some [(clinic_row (Str ''Maria'') Null)\<lparr>Unidade := Str ''Posto B''\<rparr>,
           (clinic_row (Str ''Ana'') (Timestamp 1577836800))\<lparr>Unidade := Str ''Posto B''\<rparr>])"
    by (simp add: cached_load_data_def empty_cache_def posto_load Let_def)
  have units: "Unidade (clinic_row (Str ''Maria'') Null) = Str ''Clinic A''"
    "Unidade ((clinic_row (Str ''Maria'') Null)\<lparr>Unidade := Str ''Posto B''\<rparr>) = Str ''Posto B''"
    by (simp_all add: clinic_row_def child_row.defs unit_row.defs)
  show ?thesis
    by (simp only: first stale fresh units fst_conv snd_conv simp_thms)
qed

text \<open>
  C9, as the code has it. Ingestion repeats itself: after an invocation for a path, the
  next invocation for that path returns the identical diagnostics and dataset and leaves
  the cache as it is, whether or not the file has changed in between, because the
  second invocation is served from the cache. An invocation whose path is not in the
  cache returns a dataset determined by the file at the path, given the readers of
  pandas as functions: the rows of the accepted sheets that have a name and a birth
  date, sheet after sheet in the order of the workbook and in the order of the rows of
  each sheet, with the birth date replaced by the value read from it. An invocation
  whose path is in the cache returns what is stored there, whatever the file holds.
\<close>

theorem C9_cached_ingestion_repeats_and_orders:
  "(\<exists>first cache1.
      cached_load_data parse cache fs file_path = (first, cache1) \<and>
      cached_load_data parse cache1 fs' file_path = (first, cache1)) \<and>
   (cache file_path = None \<and> fs file_path = Some (Workbook all_sheets) \<and>
    filter accepted all_sheets \<noteq> [] \<longrightarrow>
      (\<exists>out. snd (fst (cached_load_data parse cache fs file_path)) = Some out \<and>
         out =
           (let kept = concat (map (\<lambda>sheet. dropna_subset (sheet_rows sheet))
                                (filter accepted all_sheets))
            in setitem_DN (to_datetime_coerce parse (map DN kept)) kept) \<and>
         map (\<lambda>row. row\<lparr>DN := Null\<rparr>) out =
           concat (map (\<lambda>sheet. map (\<lambda>row. row\<lparr>DN := Null\<rparr>) (dropna_subset (sheet_rows sheet)))
                     (filter accepted all_sheets)))) \<and>
   (cache file_path = None \<and> cache' file_path = None \<and> fs file_path = fs' file_path \<longrightarrow>
      fst (cached_load_data parse cache fs file_path) =
        fst (cached_load_data parse cache' fs' file_path)) \<and>
   (cache file_path = Some stored \<longrightarrow>
      fst (cached_load_data parse cache fs file_path) = stored)"
proof -
  have repeat: "\<exists>first cache1.
      cached_load_data parse cache fs file_path = (first, cache1) \<and>
      cached_load_data parse cache1 fs' file_path = (first, cache1)"
    by (cases "cache file_path") (simp_all add: cached_load_data_def Let_def)
  have miss: "\<exists>out. snd (fst (cached_load_data parse cache fs file_path)) = Some out \<and>
         out =
           (let kept = concat (map (\<lambda>sheet. dropna_subset (sheet_rows sheet))
                                (filter accepted all_sheets))
            in setitem_DN (to_datetime_coerce parse (map DN kept)) kept) \<and>
         map (\<lambda>row. row\<lparr>DN := Null\<rparr>) out =
           concat (map (\<lambda>sheet. map (\<lambda>row. row\<lparr>DN := Null\<rparr>) (dropna_subset (sheet_rows sheet)))
                     (filter accepted all_sheets))"
    if c: "cache file_path = None" and fs: "fs file_path = Some (Workbook all_sheets)"
      and ne: "filter accepted all_sheets \<noteq> []"
  proof -
    note wb = load_data_workbook [where fs = fs and file_path = file_path, OF fs]
    let ?kept = "concat (map (\<lambda>sheet. dropna_subset (sheet_rows sheet)) (filter accepted all_sheets))"
    let ?out = "setitem_DN (to_datetime_coerce parse (map DN ?kept)) ?kept"
    have kept: "dropna_subset (concat (map sheet_rows (filter accepted all_sheets))) = ?kept"
      by (simp add: dropna_subset_def filter_concat_map comp_def)
    from ne have "all_sheets \<noteq> []" by auto
    with ne have "snd (load_data parse fs file_path) = Some ?out"
      by (simp add: wb kept)
    with c have res: "snd (fst (cached_load_data parse cache fs file_path)) = Some ?out"
      by (simp add: cached_load_data_def Let_def)
    have "map (\<lambda>row. row\<lparr>DN := Null\<rparr>) ?out = map (\<lambda>row. row\<lparr>DN := Null\<rparr>) ?kept"
      unfolding setitem_DN_coerce by (simp add: comp_def)
    also have "\<dots> = concat (map (\<lambda>sheet. map (\<lambda>row. row\<lparr>DN := Null\<rparr>) (dropna_subset (sheet_rows sheet)))
                  (filter accepted all_sheets))"
      by (simp add: map_concat comp_def)
    finally show ?thesis
      using res by (simp add: Let_def)
  qed
  have same: "fst (cached_load_data parse cache fs file_path) =
        fst (cached_load_data parse cache' fs' file_path)"
    if "cache file_path = None" "cache' file_path = None" "fs file_path = fs' file_path"
    using that by (simp add: cached_load_data_def Let_def load_data_def)
  have hit: "fst (cached_load_data parse cache fs file_path) = stored"
    if "cache file_path = Some stored"
    using that by (simp add: cached_load_data_def)
  from repeat miss same hit show ?thesis by blast
qed

theorem C9_cached_ingestion_repeats_and_orders_witness:
  "fst (cached_load_data sample_parse
          (snd (cached_load_data sample_parse empty_cache
                  (sample_fs (Some (Workbook [('' Clinic A '', clinic_sheet)]))) sample_path))
          (sample_fs (Some (Workbook [(''Posto B'', clinic_sheet)]))) sample_path) =
     ([], Some [clinic_row (Str ''Maria'') Null, clinic_row (Str ''Ana'') (Timestamp 1577836800)]) \<and>
   map Unidade
     (map (\<lambda>row. row\<lparr>DN := Null\<rparr>)
        [clinic_row (Str ''Maria'') Null, clinic_row (Str ''Ana'') (Timestamp 1577836800),
         (clinic_row (Str ''Maria'') Null)\<lparr>Unidade := Str ''Posto B''\<rparr>,
         (clinic_row (Str ''Ana'') (Timestamp 1577836800))\<lparr>Unidade := Str ''Posto B''\<rparr>]) =
     map Unidade
       (concat (map (\<lambda>sheet. map (\<lambda>row. row\<lparr>DN := Null\<rparr>) (dropna_subset (sheet_rows sheet)))
          [('' Clinic A '', clinic_sheet), (''Posto B'', clinic_sheet)]))"
proof -
  let ?fsA = "sample_fs (Some (Workbook [('' Clinic A '', clinic_sheet)]))"
  let ?fsB = "sample_fs (Some (Workbook [(''Posto B'', clinic_sheet)]))"
  let ?wb = "[('' Clinic A '', clinic_sheet), (''UBS Norte'', narrow_sheet), (''Posto B'', clinic_sheet)]"
  let ?fs2 = "sample_fs (Some (Workbook ?wb))"
  let ?out = "[clinic_row (Str ''Maria'') Null, clinic_row (Str ''Ana'') (Timestamp 1577836800),
            (clinic_row (Str ''Maria'') Null)\<lparr>Unidade := Str ''Posto B''\<rparr>,
            (clinic_row (Str ''Ana'') (Timestamp 1577836800))\<lparr>Unidade := Str ''Posto B''\<rparr>]"
  from C9_cached_ingestion_repeats_and_orders
    [where parse = sample_parse and cache = empty_cache and fs = ?fsA and fs' = ?fsB
      and file_path = sample_path]
  obtain first cache1 where
    one: "cached_load_data sample_parse empty_cache ?fsA sample_path = (first, cache1)" and
    two: "cached_load_data sample_parse cache1 ?fsB sample_path = (first, cache1)"
    by blast
  have "first = ([], Some [clinic_row (Str ''Maria'') Null,
      clinic_row (Str ''Ana'') (Timestamp 1577836800)])"
    using one by (simp add: cached_load_data_def empty_cache_def clinic_load Let_def)
  with one two have a: "fst (cached_load_data sample_parse
      (snd (cached_load_data sample_parse empty_cache ?fsA sample_path)) ?fsB sample_path) =
      ([], Some [clinic_row (Str ''Maria'') Null, clinic_row (Str ''Ana'') (Timestamp 1577836800)])"
    by simp
  have c: "empty_cache sample_path = None"
    by (simp add: empty_cache_def)
  have fs: "?fs2 sample_path = Some (Workbook ?wb)"
    by (simp add: sample_fs_def)
  have acc: "filter accepted ?wb = [('' Clinic A '', clinic_sheet), (''Posto B'', clinic_sheet)]"
    by code_simp
  then have ne: "filter accepted ?wb \<noteq> []" by simp
  from C9_cached_ingestion_repeats_and_orders
    [where parse = sample_parse and cache = empty_cache and fs = ?fs2 and file_path = sample_path
      and all_sheets = ?wb] c fs ne
  obtain out where
    out: "snd (fst (cached_load_data sample_parse empty_cache ?fs2 sample_path)) = Some out" and
    ord: "map (\<lambda>row. row\<lparr>DN := Null\<rparr>) out =
           concat (map (\<lambda>sheet. map (\<lambda>row. row\<lparr>DN := Null\<rparr>) (dropna_subset (sheet_rows sheet)))
                     (filter accepted ?wb))"
    by blast
  from out have "out = ?out"
    by (simp add: cached_load_data_def empty_cache_def two_units_load Let_def)
  with ord have "map (\<lambda>row. row\<lparr>DN := Null\<rparr>) ?out =
           concat (map (\<lambda>sheet. map (\<lambda>row. row\<lparr>DN := Null\<rparr>) (dropna_subset (sheet_rows sheet)))
                     [('' Clinic A '', clinic_sheet), (''Posto B'', clinic_sheet)])"
    by (simp only: acc)
  then have "map Unidade (map (\<lambda>row. row\<lparr>DN := Null\<rparr>) ?out) =
      map Unidade (concat (map (\<lambda>sheet. map (\<lambda>row. row\<lparr>DN := Null\<rparr>) (dropna_subset (sheet_rows sheet)))
                     [('' Clinic A '', clinic_sheet), (''Posto B'', clinic_sheet)]))"
    by (simp only:)
  with a show ?thesis by blast
qed

lemma sample_load:
  "load_data sample_parse (sample_fs (Some (Workbook sample_workbook))) sample_path =
     ([St_warning (ignored_message ''UBS Norte'')],
      Some [clinic_row (Str ''Maria'') Null, clinic_row (Str ''Ana'') (Timestamp 1577836800)])"
  by code_simp

lemma maria_in_sheet:
  "sheet_rows ('' Clinic A '', clinic_sheet) ! 0 = clinic_row (Str ''Maria'') (Str ''31/02/2020'')"
  "clinic_row (Str ''Maria'') (Str ''31/02/2020'') \<in> set (sheet_rows ('' Clinic A '', clinic_sheet))"
  "accepted ('' Clinic A '', clinic_sheet)"
  by code_simp+

lemma clinic_row_fields:
  "Nome (clinic_row name dn) = name" "DN (clinic_row name dn) = dn"
  "(clinic_row name dn)\<lparr>DN := dn'\<rparr> = clinic_row name dn'"
  by (simp_all add: clinic_row_def mk_row_def sample_cells_def child_row.defs unit_row.defs)

text \<open>
  The sample workbook has the line of Maria, whose birth date is a text that the parser
  rejects. Ingestion returns that line, with a missing birth date: the filter on name
  and birth date ran before the dates were read.
\<close>

theorem C3_unparseable_row_is_kept_counterexample:
  "sample_parse [Str ''31/02/2020'', Timestamp 1577836800] (Str ''31/02/2020'') = None \<and>
   sheet_rows ('' Clinic A '', clinic_sheet) ! 0 = clinic_row (Str ''Maria'') (Str ''31/02/2020'') \<and>
   Nome (clinic_row (Str ''Maria'') (Str ''31/02/2020'')) = Str ''Maria'' \<and>
   snd (load_data sample_parse (sample_fs (Some (Workbook sample_workbook))) sample_path) =
     Some [clinic_row (Str ''Maria'') Null, clinic_row (Str ''Ana'') (Timestamp 1577836800)] \<and>
   Nome (clinic_row (Str ''Maria'') Null) = Str ''Maria'' \<and>
   DN (clinic_row (Str ''Maria'') Null) = Null"
  by (simp add: sample_load maria_in_sheet clinic_row_fields sample_parse_def)

text \<open>
  C3, as the code has it. A row of an accepted sheet whose name is present and whose
  birth date is present but is not read as a date in its column does not stop ingestion
  and is not excluded: ingestion returns rows, and among them this row, with a missing
  birth date and every other field unchanged. The filter on name and birth date runs
  before the dates are read.
\<close>

theorem C3_unparseable_birth_date_row_kept:
  assumes "fs file_path = Some (Workbook all_sheets)"
    and "sheet \<in> set all_sheets" and "accepted sheet"
    and "src \<in> set (sheet_rows sheet)"
    and "Nome src \<noteq> Null" and "DN src \<noteq> Null"
    and "parse (map DN (dropna_subset (concat (map sheet_rows (filter accepted all_sheets)))))
           (DN src) = None"
  shows "\<exists>shown out. load_data parse fs file_path = (shown, Some out) \<and>
           src\<lparr>DN := Null\<rparr> \<in> set out"
proof -
  note wb = load_data_workbook [where fs = fs and file_path = file_path, OF assms(1)]
  let ?kept = "dropna_subset (concat (map sheet_rows (filter accepted all_sheets)))"
  let ?out = "setitem_DN (to_datetime_coerce parse (map DN ?kept)) ?kept"
  from assms(2,3) have ne: "filter accepted all_sheets \<noteq> []" "all_sheets \<noteq> []"
    by (auto simp: filter_empty_conv)
  then obtain shown where load: "load_data parse fs file_path = (shown, Some ?out)"
    by (simp add: wb)
  define f where "f = (\<lambda>row :: unit_row. row\<lparr>DN := (case DN row of Null \<Rightarrow> Null
      | _ \<Rightarrow> (case parse (map DN ?kept) (DN row) of None \<Rightarrow> Null | Some t \<Rightarrow> Timestamp t))\<rparr>)"
  have out_eq: "?out = map f ?kept"
    unfolding f_def by (rule setitem_DN_coerce)
  from assms(2,3) have "sheet \<in> set (filter accepted all_sheets)" by simp
  with assms(4) have "src \<in> set (concat (map sheet_rows (filter accepted all_sheets)))"
    unfolding set_concat set_map by blast
  with assms(5,6) have "src \<in> set ?kept"
    by (simp add: dropna_subset_def notna_def)
  then have "f src \<in> set ?out"
    by (simp add: out_eq)
  moreover from assms(7) have "f src = src\<lparr>DN := Null\<rparr>"
    unfolding f_def by (cases "DN src") simp_all
  ultimately have "src\<lparr>DN := Null\<rparr> \<in> set ?out" by simp
  with load show ?thesis by blast
qed

theorem C3_unparseable_birth_date_row_kept_witness:
  "\<exists>shown out.
     load_data sample_parse (sample_fs (Some (Workbook sample_workbook))) sample_path =
       (shown, Some out) \<and>
     clinic_row (Str ''Maria'') Null \<in> set out"
proof -
  let ?fs = "sample_fs (Some (Workbook sample_workbook))"
  let ?src = "clinic_row (Str ''Maria'') (Str ''31/02/2020'')"
  have fs: "?fs sample_path = Some (Workbook sample_workbook)"
    by (simp add: sample_fs_def)
  have sheet: "('' Clinic A '', clinic_sheet) \<in> set sample_workbook"
    by (simp add: sample_workbook_def)
  have present: "Nome ?src \<noteq> Null" "DN ?src \<noteq> Null"
    by (simp_all add: clinic_row_fields)
  have fails: "sample_parse
      (map DN (dropna_subset (concat (map sheet_rows (filter accepted sample_workbook)))))
      (DN ?src) = None"
    by (simp add: clinic_row_fields sample_parse_def)
  from C3_unparseable_birth_date_row_kept
    [where fs = ?fs and file_path = sample_path and parse = sample_parse,
      OF fs sheet maria_in_sheet(3) maria_in_sheet(2) present fails]
  show ?thesis by (simp only: clinic_row_fields)
qed


text \<open>
  In a frame of pandas every column is as long as the index, so the positions read
  above are positions of the columns; the sample sheets are such frames.
\<close>

lemma wf_kept_columns:
  assumes "wf_dataframe df" and "(label, vs) \<in> set (kept_columns df)"
  shows "length vs = n_rows df"
  using assms by (auto simp: wf_dataframe_def kept_columns_def list_all_iff)

lemma wf_samples:
  "wf_dataframe clinic_sheet" "wf_dataframe narrow_sheet" "wf_dataframe nameless_sheet"
  by code_simp+

end
